theory Spec2Isabelle
  imports Complex_Main "HOL-Library.Sublist" "HOL-Library.Char_ord" "HOL-Library.List_Lexorder"
    "HOL-Library.AList"
begin

section \<open>Strings and numbers of the runtime\<close>

text \<open>
  A string of the program is a sequence of UTF-16 code units. The model uses
  \<^typ>\<open>string\<close> and reads a \<^typ>\<open>char\<close> as the code unit of the same value, so it covers
  the strings whose code units are below 256 (Latin-1, which holds the Portuguese
  letters): the c with cedilla is the one unit \<open>0xE7\<close>. Case mapping, trimming and the regular
  expression classes below are the ones of the language restricted to that range.
\<close>

definition is_digit :: "char \<Rightarrow> bool" where
  \<comment> \<open>the class \<open>\d\<close>\<close>
  "is_digit c = (c \<in> set ''0123456789'')"

definition is_lower_az :: "char \<Rightarrow> bool" where
  \<comment> \<open>the class \<open>[a-z]\<close>\<close>
  "is_lower_az c = (c \<in> set ''abcdefghijklmnopqrstuvwxyz'')"

definition is_upper_az :: "char \<Rightarrow> bool" where
  \<comment> \<open>the class \<open>[A-Z]\<close>\<close>
  "is_upper_az c = (c \<in> set ''ABCDEFGHIJKLMNOPQRSTUVWXYZ'')"

definition is_word :: "char \<Rightarrow> bool" where
  \<comment> \<open>the class \<open>\w\<close>, that is \<open>[A-Za-z0-9_]\<close>\<close>
  "is_word c = (is_lower_az c \<or> is_upper_az c \<or> is_digit c \<or> c = CHR ''_'')"

definition is_space :: "char \<Rightarrow> bool" where
  \<comment> \<open>white space and line terminators below 256: TAB, LF, VT, FF, CR, SP, NBSP;
      what \<open>trim\<close> strips and \<open>\s\<close> matches\<close>
  "is_space c = ((of_char c :: nat) \<in> {9, 10, 11, 12, 13, 32, 160})"

definition lower_char :: "char \<Rightarrow> char" where
  \<comment> \<open>\<open>A\<close>..\<open>Z\<close> and the capital letters \<open>0xC0\<close>..\<open>0xDE\<close> (but the sign \<open>0xD7\<close>)
      move up by 32; every other unit below 256 is its own lower case\<close>
  "lower_char c =
     (let n = (of_char c :: nat)
      in if (65 \<le> n \<and> n \<le> 90) \<or> (192 \<le> n \<and> n \<le> 222 \<and> n \<noteq> 215)
         then char_of (n + 32) else c)"

definition toLowerCase :: "string \<Rightarrow> string" where
  "toLowerCase s = map lower_char s"

definition trim :: "string \<Rightarrow> string" where
  "trim s = rev (dropWhile is_space (rev (dropWhile is_space s)))"

fun str_includes :: "string \<Rightarrow> string \<Rightarrow> bool" where
  \<comment> \<open>\<open>s.includes(t)\<close>: \<open>t\<close> occurs in \<open>s\<close> as a contiguous run\<close>
  "str_includes [] t = (t = [])"
| "str_includes (c # s) t = (prefix t (c # s) \<or> str_includes s t)"

section \<open>Header normalizer\<close>






section \<open>Numbers read from and written to text\<close>

fun show_nat :: "nat \<Rightarrow> string" where
  \<comment> \<open>\<open>Number::toString\<close> on a natural number: its decimal digits\<close>
  "show_nat n =
     (if n < 10 then [''0123456789'' ! n]
      else show_nat (n div 10) @ [''0123456789'' ! (n mod 10)])"

declare show_nat.simps [simp del]

definition digit_val :: "char \<Rightarrow> nat" where
  \<comment> \<open>the value of a digit of radix up to 16\<close>
  "digit_val c =
     (let n = (of_char c :: nat)
      in if 48 \<le> n \<and> n \<le> 57 then n - 48
         else if 97 \<le> n \<and> n \<le> 102 then n - 87
         else n - 55)"

definition is_radix_digit :: "nat \<Rightarrow> char \<Rightarrow> bool" where
  "is_radix_digit R c =
     (if R = 16 then is_digit c \<or> c \<in> set ''abcdefABCDEF'' else is_digit c)"

definition digits_value :: "nat \<Rightarrow> string \<Rightarrow> nat" where
  "digits_value R ds = foldl (\<lambda>acc c. acc * R + digit_val c) 0 ds"

definition parseInt :: "string \<Rightarrow> int option" where
  \<comment> \<open>\<open>parseInt(s)\<close> with no radix; \<open>None\<close> is NaN. Leading white space is skipped, a
      sign is read, a prefix \<open>0x\<close> or \<open>0X\<close> selects radix 16, and the longest run of
      digits of the radix is the value; what follows the run is ignored.\<close>
  "parseInt s =
     (let S = dropWhile is_space s;
          neg = (case S of c # _ \<Rightarrow> c = CHR ''-'' | [] \<Rightarrow> False);
          S1 = (case S of c # r \<Rightarrow> if c = CHR ''+'' \<or> c = CHR ''-'' then r else S | [] \<Rightarrow> S);
          hex = (prefix ''0x'' S1 \<or> prefix ''0X'' S1);
          R = (if hex then 16 else 10);
          S2 = (if hex then drop 2 S1 else S1);
          Z = takeWhile (is_radix_digit R) S2
      in if Z = [] then None
         else Some (if neg then - int (digits_value R Z) else int (digits_value R Z)))"

definition parseInt_group :: "string \<Rightarrow> nat" where
  \<comment> \<open>\<open>parseInt\<close> on a group of digits a regular expression captured. There
      \<open>parseInt\<close> is a natural number (lemma \<open>parseInt_digits\<close>), so the branch of NaN
      is never taken.\<close>
  "parseInt_group g = (case parseInt g of Some n \<Rightarrow> nat n | None \<Rightarrow> 0)"


definition padStart2 :: "string \<Rightarrow> string" where
  \<comment> \<open>\<open>s.padStart(2, '0')\<close>\<close>
  "padStart2 s = replicate (2 - length s) CHR ''0'' @ s"

section \<open>Row normalizer\<close>

record parsed_date =
  date :: string
  year :: nat
  month :: nat

definition digit_group :: "nat \<Rightarrow> nat \<Rightarrow> string \<Rightarrow> (string \<times> string) option" where
  \<comment> \<open>\<open>(\d{lo,hi})\<close> where a character that is no digit, or the end, must follow: the
      run of digits at the head is the group, and its length must be in range
      (a longer run leaves a digit where the pattern wants the separator).
      The result is the group and the rest.\<close>
  "digit_group lo hi s =
     (let g = takeWhile is_digit s
      in if lo \<le> length g \<and> length g \<le> hi then Some (g, dropWhile is_digit s) else None)"

definition match3 :: "nat \<times> nat \<Rightarrow> nat \<times> nat \<Rightarrow> nat \<times> nat \<Rightarrow> char \<Rightarrow> string
    \<Rightarrow> (string \<times> string \<times> string) option" where
  \<comment> \<open>\<open>^(\d{..})sep(\d{..})sep(\d{..})$\<close>: three groups of digits with the separator
      between them, and nothing else\<close>
  "match3 b1 b2 b3 sep s =
     (case digit_group (fst b1) (snd b1) s of
        None \<Rightarrow> None
      | Some (g1, r1) \<Rightarrow>
          (case r1 of
             [] \<Rightarrow> None
           | c1 # r1' \<Rightarrow>
               if c1 \<noteq> sep then None
               else (case digit_group (fst b2) (snd b2) r1' of
                       None \<Rightarrow> None
                     | Some (g2, r2) \<Rightarrow>
                         (case r2 of
                            [] \<Rightarrow> None
                          | c2 # r2' \<Rightarrow>
                              if c2 \<noteq> sep then None
                              else (case digit_group (fst b3) (snd b3) r2' of
                                      None \<Rightarrow> None
                                    | Some (g3, r3) \<Rightarrow>
                                        if r3 = [] then Some (g1, g2, g3) else None)))))"

definition parseDate :: "string option \<Rightarrow> parsed_date option" where
  \<comment> \<open>the argument is the cell, \<open>None\<close> when the raw row has none (\<open>undefined\<close>)\<close>
  "parseDate dateStr =
     (case dateStr of
        None \<Rightarrow> None
      | Some ds \<Rightarrow>
          if ds = [] then None
          else
            (let str = trim ds
             in case match3 (4, 4) (1, 2) (1, 2) CHR ''-'' str of
                  Some (m1, m2, m3) \<Rightarrow>
                    Some \<lparr>date = m1 @ ''-'' @ padStart2 m2 @ ''-'' @ padStart2 m3,
                          year = parseInt_group m1,
                          month = parseInt_group m2\<rparr>
                | None \<Rightarrow>
                    (case match3 (1, 2) (1, 2) (4, 4) CHR ''/'' str of
                       Some (m1, m2, m3) \<Rightarrow>
                         (let d1 = parseInt_group m1;
                              d2 = parseInt_group m2;
                              y = parseInt_group m3;
                              (dy, mo) = (if d1 > 12 then (d1, d2) else (d2, d1))
                          in Some \<lparr>date = show_nat y @ ''-'' @ padStart2 (show_nat mo)
                                          @ ''-'' @ padStart2 (show_nat dy),
                                   year = y,
                                   month = mo\<rparr>)
                     | None \<Rightarrow> None)))"

record row =
  Data :: "string option"
  Ano :: "nat option"
  Mes :: "nat option"
  Trimestre :: "nat option"
  ID_Transacao :: "string option"
  Produto :: "string option"
  Categoria :: "string option"
  Regiao :: "string option"
  Quantidade :: "int option"
  Preco_Unitario :: "rat option"
  Receita_Total :: "rat option"
  others :: "(string \<times> string option) list"

text \<open>
  A row is an object with the fields of the canonical schema, each of which may be
  unset (\<open>None\<close> is \<open>undefined\<close>). Years, months and quantities are integers. A column
  whose header no schema entry matches keeps its header as its name and its text as its
  value; the model holds these in \<open>others\<close>, also when the header is spelled like a
  derived field (\<open>Ano\<close>, \<open>Mes\<close>, \<open>Trimestre\<close>): the fields \<open>Ano\<close> and \<open>Mes\<close> of the model
  are the numbers of a parsed date, and a text under such a name is equal to no number of
  a context. Every cell of a raw row is text: both readers of a file build their rows
  from strings.
\<close>

definition empty_row :: row where
  "empty_row =
     \<lparr>Data = None, Ano = None, Mes = None, Trimestre = None, ID_Transacao = None,
      Produto = None, Categoria = None, Regiao = None, Quantidade = None,
      Preco_Unitario = None, Receita_Total = None, others = []\<rparr>"








section \<open>Query parser\<close>

definition MONTHS_PT :: "(string \<times> nat) list" where
  \<comment> \<open>the entries in the order of the source; the c with cedilla is the unit \<open>0xE7\<close>\<close>
  "MONTHS_PT =
    [(''janeiro'', 1), (''jan'', 1),
     (''fevereiro'', 2), (''fev'', 2),
     (''mar'' @ [CHR 0xE7] @ ''o'', 3), (''mar'', 3),
     (''abril'', 4), (''abr'', 4),
     (''maio'', 5), (''mai'', 5),
     (''junho'', 6), (''jun'', 6),
     (''julho'', 7), (''jul'', 7),
     (''agosto'', 8), (''ago'', 8),
     (''setembro'', 9), (''set'', 9),
     (''outubro'', 10), (''out'', 10),
     (''novembro'', 11), (''nov'', 11),
     (''dezembro'', 12), (''dez'', 12)]"

record QueryContext =
  years :: "nat list"
  months :: "nat list"
  produtos :: "string list"
  categorias :: "string list"
  regioes :: "string list"
  metrics :: "string list"
  comparison :: bool
  topN :: "nat option"

definition is_word_at :: "string \<Rightarrow> nat \<Rightarrow> bool" where
  "is_word_at s i = (i < length s \<and> is_word (s ! i))"

definition word_boundary :: "string \<Rightarrow> nat \<Rightarrow> bool" where
  \<comment> \<open>\<open>\b\<close> at position \<open>i\<close>: a word character on exactly one side\<close>
  "word_boundary s i = ((0 < i \<and> is_word_at s (i - 1)) \<noteq> is_word_at s i)"

definition year_at :: "string \<Rightarrow> nat \<Rightarrow> bool" where
  \<comment> \<open>\<open>\b(20\d{2})\b\<close> matches at position \<open>i\<close>\<close>
  "year_at s i =
     (word_boundary s i \<and> i + 4 \<le> length s \<and> s ! i = CHR ''2'' \<and> s ! (i + 1) = CHR ''0''
      \<and> is_digit (s ! (i + 2)) \<and> is_digit (s ! (i + 3)) \<and> word_boundary s (i + 4))"

definition yearMatches :: "string \<Rightarrow> string list" where
  \<comment> \<open>\<open>query.match(/\b(20\d{2})\b/g)\<close>, the empty list for \<open>null\<close>. Two matches never
      overlap (a match is four word characters with no word character before or
      after), so the matches are the texts at all the positions where the pattern
      matches.\<close>
  "yearMatches s = map (\<lambda>i. take 4 (drop i s)) (filter (year_at s) [0..<length s])"

definition word_match :: "string list \<Rightarrow> string \<Rightarrow> bool" where
  \<comment> \<open>\<open>s.match(/\b(w1|w2|...)\b/)\<close> is not \<open>null\<close>\<close>
  "word_match ws s =
     list_ex (\<lambda>i. word_boundary s i
        \<and> list_ex (\<lambda>w. prefix w (drop i s) \<and> word_boundary s (i + length w)) ws)
       [0..<Suc (length s)]"

fun first_some :: "('a \<Rightarrow> 'b option) \<Rightarrow> 'a list \<Rightarrow> 'b option" where
  "first_some f [] = None"
| "first_some f (x # xs) = (case f x of Some y \<Rightarrow> Some y | None \<Rightarrow> first_some f xs)"

definition top_at :: "string \<Rightarrow> nat \<Rightarrow> string option" where
  \<comment> \<open>\<open>\b(top|maior|melhor|principal)\s*(\d+)\<close> at position \<open>i\<close>: the second group\<close>
  "top_at s i =
     (if word_boundary s i then
        first_some
          (\<lambda>w. if prefix w (drop i s) then
                 (let ds = takeWhile is_digit (dropWhile is_space (drop (i + length w) s))
                  in if ds = [] then None else Some ds)
               else None)
          [''top'', ''maior'', ''melhor'', ''principal'']
      else None)"

definition topMatch :: "string \<Rightarrow> string option" where
  \<comment> \<open>the second group of the leftmost match, \<open>None\<close> for \<open>null\<close>\<close>
  "topMatch s = first_some (top_at s) [0..<Suc (length s)]"

definition add_new :: "'a list \<Rightarrow> 'a \<Rightarrow> 'a list" where
  "add_new acc x = (if x \<in> set acc then acc else acc @ [x])"

definition distinct_values :: "'a list \<Rightarrow> 'a list" where
  \<comment> \<open>\<open>[...new Set(xs)]\<close>: the distinct values in the order of their first occurrence\<close>
  "distinct_values xs = foldl add_new [] xs"

definition truthy_names :: "string option list \<Rightarrow> string list" where
  \<comment> \<open>\<open>.filter(Boolean)\<close> on names: \<open>undefined\<close> and the empty string are dropped\<close>
  "truthy_names vs = concat (map (\<lambda>v. case v of None \<Rightarrow> [] | Some s \<Rightarrow> if s = [] then [] else [s]) vs)"

definition month_hits :: "string \<Rightarrow> nat list" where
  \<comment> \<open>the loop over the entries of \<open>MONTHS_PT\<close>\<close>
  "month_hits lower =
     foldl (\<lambda>ms entry. if str_includes lower (fst entry) then add_new ms (snd entry) else ms)
       [] MONTHS_PT"

definition entity_hits :: "string \<Rightarrow> string list \<Rightarrow> string list" where
  \<comment> \<open>\<open>unique.forEach(p => { if (lower.includes(p.toLowerCase())) push(p) })\<close>\<close>
  "entity_hits lower unique = filter (\<lambda>p. str_includes lower (toLowerCase p)) unique"

definition parseQuery :: "string \<Rightarrow> row list \<Rightarrow> QueryContext" where
  "parseQuery query allData =
     (let lower = toLowerCase query;
          uniqueProdutos = distinct_values (truthy_names (map Produto allData));
          uniqueCategorias = distinct_values (truthy_names (map Categoria allData));
          uniqueRegioes = distinct_values (truthy_names (map Regiao allData))
      in \<lparr>years = map parseInt_group (yearMatches query),
          months = month_hits lower,
          produtos = entity_hits lower uniqueProdutos,
          categorias = entity_hits lower uniqueCategorias,
          regioes = entity_hits lower uniqueRegioes,
          metrics =
            (if word_match [''quantidade'', ''qtd'', ''unidades'', ''volume''] lower
             then [''quantidade''] else [])
            @ (if word_match [''receita'', ''valor'', ''faturamento'', ''vendas''] lower
               then [''receita''] else [])
            @ (if word_match [''pre'' @ [CHR 0xE7] @ ''o'', ''preco'', ''m'' @ [CHR 0xE9] @ ''dia'',
                              ''medio'', ''ticket''] lower
               then [''preco_medio''] else []),
          comparison =
            word_match [''crescimento'', ''varia'' @ [CHR 0xE7, CHR 0xE3] @ ''o'', ''variacao'',
                        ''compara'' @ [CHR 0xE7, CHR 0xE3] @ ''o'', ''comparacao'', ''vs'', ''versus'']
              lower,
          topN = map_option parseInt_group (topMatch lower)\<rparr>)"

section \<open>Data filter\<close>

definition js_includes :: "'a list \<Rightarrow> 'a option \<Rightarrow> bool" where
  \<comment> \<open>\<open>xs.includes(v)\<close> where \<open>v\<close> may be \<open>undefined\<close>, which no element is\<close>
  "js_includes xs v = (case v of None \<Rightarrow> False | Some x \<Rightarrow> x \<in> set xs)"

definition row_passes :: "QueryContext \<Rightarrow> row \<Rightarrow> bool" where
  \<comment> \<open>the predicate of the filter, with its early returns\<close>
  "row_passes context r =
     (if length (years context) > 0 \<and> \<not> js_includes (years context) (Ano r) then False
      else if length (months context) > 0 \<and> \<not> js_includes (months context) (Mes r) then False
      else if length (produtos context) > 0 \<and> \<not> js_includes (produtos context) (Produto r)
        then False
      else if length (categorias context) > 0 \<and> \<not> js_includes (categorias context) (Categoria r)
        then False
      else if length (regioes context) > 0 \<and> \<not> js_includes (regioes context) (Regiao r)
        then False
      else True)"

definition filterData :: "row list \<Rightarrow> QueryContext \<Rightarrow> row list" where
  "filterData data context = filter (row_passes context) data"

section \<open>Aggregation engine\<close>

text \<open>
  Amounts are the exact rationals: sums and quotients by a positive count are computed
  without the rounding of doubles. The one quotient whose divisor can be zero, the
  growth, is computed in \<open>jsnum\<close>, which has the values the division of doubles gives
  there. A sum of amounts that starts from \<open>+0\<close> is never \<open>-0\<close>, so a zero divisor is \<open>+0\<close>.
\<close>

datatype jsnum = Finite rat | PosInfinity | NegInfinity | NaN

definition js_div :: "rat \<Rightarrow> rat \<Rightarrow> jsnum" where
  \<comment> \<open>\<open>a / b\<close> where \<open>b\<close> is not \<open>-0\<close>\<close>
  "js_div a b =
     (if b \<noteq> 0 then Finite (a / b)
      else if a > 0 then PosInfinity
      else if a < 0 then NegInfinity
      else NaN)"

definition js_times :: "jsnum \<Rightarrow> rat \<Rightarrow> jsnum" where
  \<comment> \<open>\<open>x * c\<close> for a finite \<open>c\<close>\<close>
  "js_times x c =
     (case x of
        Finite v \<Rightarrow> Finite (v * c)
      | PosInfinity \<Rightarrow> if c > 0 then PosInfinity else if c < 0 then NegInfinity else NaN
      | NegInfinity \<Rightarrow> if c > 0 then NegInfinity else if c < 0 then PosInfinity else NaN
      | NaN \<Rightarrow> NaN)"

definition toFixed :: "nat \<Rightarrow> jsnum \<Rightarrow> string option" where
  \<comment> \<open>\<open>x.toFixed(f)\<close>. For a finite \<open>x\<close> below \<open>10^21\<close> in magnitude: the sign, then the
      digits of the integer \<open>n\<close> nearest to \<open>|x| * 10^f\<close> (the larger one on a tie), filled
      with zeros to \<open>f + 1\<close> digits, with a point before the last \<open>f\<close>. From \<open>10^21\<close> on
      the language writes the number with an exponent, which is not modelled: \<open>None\<close>.\<close>
  "toFixed f x =
     (case x of
        NaN \<Rightarrow> Some ''NaN''
      | PosInfinity \<Rightarrow> Some ''Infinity''
      | NegInfinity \<Rightarrow> Some ''-Infinity''
      | Finite v \<Rightarrow>
          if \<bar>v\<bar> \<ge> 10 ^ 21 then None
          else
            (let sgn = (if v < 0 then ''-'' else []);
                 n = nat \<lfloor>\<bar>v\<bar> * 10 ^ f + 1 / 2\<rfloor>;
                 m = show_nat n;
                 m' = replicate (f + 1 - length m) CHR ''0'' @ m;
                 k = length m'
             in Some (if f = 0 then sgn @ m'
                      else sgn @ take (k - f) m' @ ''.'' @ drop (k - f) m')))"

datatype js_error = TypeError

record stats =
  receita :: rat
  quantidade :: int

record group_stats = stats +
  count :: nat

record month_entry = stats +
  mes :: string

record totals =
  receita_total :: rat
  quantidade_total :: int
  ticket_medio :: rat

record grupo = totals +
  nome :: string

record variacao =
  crescimento_pct :: "string option"
  periodo_anterior :: string
  periodo_atual :: string

record analysis = totals +
  total_registros :: nat
  periodo_analizado :: string
  grupos :: "grupo list"
  erro :: "string option"
  grupo_por :: "string option"
  variacao_mensal :: "variacao option"
  evolucao_mensal :: "month_entry list option"

definition row_receita :: "row \<Rightarrow> rat" where
  \<comment> \<open>\<open>row.Receita_Total || 0\<close>\<close>
  "row_receita r = (case Receita_Total r of None \<Rightarrow> 0 | Some v \<Rightarrow> v)"

definition row_quantidade :: "row \<Rightarrow> int" where
  \<comment> \<open>\<open>row.Quantidade || 0\<close>\<close>
  "row_quantidade r = (case Quantidade r of None \<Rightarrow> 0 | Some q \<Rightarrow> q)"

definition plain_sort :: "nat option list \<Rightarrow> nat option list" where
  \<comment> \<open>\<open>xs.sort()\<close> with no comparator: the numbers in the order of their texts, stably,
      and \<open>undefined\<close> last\<close>
  "plain_sort xs =
     map Some (sort_key show_nat (concat (map (\<lambda>v. case v of None \<Rightarrow> [] | Some n \<Rightarrow> [n]) xs)))
     @ filter (\<lambda>v. v = None) xs"

definition elem_at :: "nat option list \<Rightarrow> nat \<Rightarrow> nat option" where
  \<comment> \<open>\<open>xs[i]\<close>, \<open>undefined\<close> out of range\<close>
  "elem_at xs i = (if i < length xs then xs ! i else None)"

definition month_label :: "nat \<Rightarrow> string" where
  \<comment> \<open>\<open>Object.keys(MONTHS_PT).find(k => MONTHS_PT[k] === mes) || mes.toString()\<close>\<close>
  "month_label m =
     (case find (\<lambda>entry. snd entry = m) MONTHS_PT of
        Some entry \<Rightarrow> fst entry
      | None \<Rightarrow> show_nat m)"

definition template_text :: "nat option \<Rightarrow> string" where
  \<comment> \<open>a number or \<open>undefined\<close> inside a template string\<close>
  "template_text v = (case v of None \<Rightarrow> ''undefined'' | Some n \<Rightarrow> show_nat n)"

definition periodo :: "nat option list \<Rightarrow> nat option list \<Rightarrow> string" where
  "periodo ys ms =
     (if length ys = 1 \<and> length ms = 1 then
        (case elem_at ms 0 of None \<Rightarrow> ''undefined'' | Some m \<Rightarrow> month_label m)
        @ ''/'' @ template_text (elem_at ys 0)
      else if length ys = 1 then template_text (elem_at ys 0)
      else template_text (elem_at ys 0) @ '' a '' @ template_text (elem_at ys (length ys - 1)))"

definition groupBy_of :: "QueryContext \<Rightarrow> string" where
  "groupBy_of context =
     (if length (produtos context) = 0 then ''Produto''
      else if length (categorias context) = 0 then ''Categoria''
      else ''Regiao'')"

definition group_key :: "string \<Rightarrow> row \<Rightarrow> string" where
  \<comment> \<open>\<open>row[groupBy] || 'Outros'\<close>, for the three values \<open>groupBy\<close> takes\<close>
  "group_key groupBy r =
     (case (if groupBy = ''Produto'' then Produto r
            else if groupBy = ''Categoria'' then Categoria r
            else Regiao r) of
        None \<Rightarrow> ''Outros''
      | Some s \<Rightarrow> if s = [] then ''Outros'' else s)"

definition map_entry :: "'k \<Rightarrow> ('v \<Rightarrow> 'v) \<Rightarrow> ('k \<times> 'v) list \<Rightarrow> ('k \<times> 'v) list" where
  \<comment> \<open>the update in place of the value a \<open>Map\<close> holds at a key\<close>
  "map_entry k f m = map (\<lambda>e. if fst e = k then (fst e, f (snd e)) else e) m"

definition ensure_key :: "'k \<Rightarrow> 'v \<Rightarrow> ('k \<times> 'v) list \<Rightarrow> ('k \<times> 'v) list" where
  \<comment> \<open>\<open>if (!m.has(k)) m.set(k, v)\<close>: a new key goes last, as a \<open>Map\<close> keeps insertion order\<close>
  "ensure_key k v m = (if k \<in> set (map fst m) then m else m @ [(k, v)])"

definition group_row :: "string \<Rightarrow> (string \<times> group_stats) list \<Rightarrow> row
    \<Rightarrow> (string \<times> group_stats) list" where
  "group_row groupBy groups r =
     (let key = group_key groupBy r
      in map_entry key
           (\<lambda>g. g\<lparr>receita := receita g + row_receita r,
                  quantidade := quantidade g + row_quantidade r,
                  count := count g + 1\<rparr>)
           (ensure_key key \<lparr>receita = 0, quantidade = 0, count = 0\<rparr> groups))"

definition to_grupo :: "string \<times> group_stats \<Rightarrow> grupo" where
  "to_grupo e =
     \<lparr>receita_total = receita (snd e), quantidade_total = quantidade (snd e),
      ticket_medio = receita (snd e) / of_nat (count (snd e)), nome = fst e\<rparr>"

definition sorted_groups :: "string \<Rightarrow> row list \<Rightarrow> grupo list" where
  \<comment> \<open>the groups sorted with the comparator \<open>b.receita_total - a.receita_total\<close>;
      the sort of the language is stable\<close>
  "sorted_groups groupBy data =
     sort_key (\<lambda>g. - receita_total g) (map to_grupo (foldl (group_row groupBy) [] data))"

definition topN_truthy :: "QueryContext \<Rightarrow> bool" where
  \<comment> \<open>\<open>context.topN\<close> as a condition: a number other than 0\<close>
  "topN_truthy context = (case topN context of None \<Rightarrow> False | Some n \<Rightarrow> n \<noteq> 0)"

definition month_row :: "(nat option \<times> stats) list \<Rightarrow> row \<Rightarrow> (nat option \<times> stats) list" where
  "month_row byMonth r =
     map_entry (Mes r)
       (\<lambda>m. m\<lparr>receita := receita m + row_receita r,
              quantidade := quantidade m + row_quantidade r\<rparr>)
       (ensure_key (Mes r) \<lparr>receita = 0, quantidade = 0\<rparr> byMonth)"

fun name_months :: "(nat option \<times> stats) list \<Rightarrow> js_error + month_entry list" where
  \<comment> \<open>the \<open>map\<close> over the entries of \<open>byMonth\<close>: \<open>mes.toString()\<close> is evaluated for a month
      the table does not name, and throws when the key is \<open>undefined\<close>\<close>
  "name_months [] = Inr []"
| "name_months ((k, st) # rest) =
     (case k of
        None \<Rightarrow> Inl TypeError
      | Some m \<Rightarrow>
          (case name_months rest of
             Inl e \<Rightarrow> Inl e
           | Inr es \<Rightarrow>
               Inr (\<lparr>receita = receita st, quantidade = quantidade st, mes = month_label m\<rparr> # es)))"

definition month_number :: "string \<Rightarrow> int" where
  \<comment> \<open>\<open>MONTHS_PT[name.toLowerCase()] || parseInt(name)\<close>. The names are those
      \<open>month_label\<close> gives, on which this is a number (lemma \<open>month_number_label\<close>); NaN
      does not occur and is read as 0.\<close>
  "month_number name =
     (case map_of MONTHS_PT (toLowerCase name) of
        Some n \<Rightarrow> int n
      | None \<Rightarrow> (case parseInt name of Some n \<Rightarrow> n | None \<Rightarrow> 0))"

definition growth_of :: "month_entry \<Rightarrow> month_entry \<Rightarrow> variacao" where
  "growth_of prev last' =
     (let growth = js_times (js_div (receita last' - receita prev) (receita prev)) 100
      in \<lparr>crescimento_pct = toFixed 2 growth,
          periodo_anterior = mes prev,
          periodo_atual = mes last'\<rparr>)"

definition analyzeData :: "row list \<Rightarrow> QueryContext \<Rightarrow> js_error + analysis" where
  "analyzeData data context =
     (let a0 = \<lparr>receita_total = 0, quantidade_total = 0, ticket_medio = 0,
                total_registros = length data, periodo_analizado = [], grupos = [],
                erro = None, grupo_por = None, variacao_mensal = None,
                evolucao_mensal = None\<rparr>
      in if length data = 0 then
           Inr (a0\<lparr>erro := Some ''Nenhum dado encontrado para os filtros especificados''\<rparr>)
         else
           (let a1 = foldl (\<lambda>a r. a\<lparr>receita_total := receita_total a + row_receita r,
                                     quantidade_total := quantidade_total a + row_quantidade r\<rparr>)
                       a0 data;
                a2 = a1\<lparr>ticket_medio := receita_total a1 / of_nat (length data)\<rparr>;
                ys = plain_sort (distinct_values (map Ano data));
                ms = plain_sort (distinct_values (map Mes data));
                a3 = a2\<lparr>periodo_analizado := periodo ys ms\<rparr>;
                a4 = (if topN_truthy context \<or> comparison context then
                        (let groupBy = groupBy_of context;
                             sorted = sorted_groups groupBy data
                         in a3\<lparr>grupos := (if topN_truthy context
                                            then take (the (topN context)) sorted else sorted),
                               grupo_por := Some groupBy\<rparr>)
                      else a3)
            in if comparison context \<and> length ms > 1 then
                 (case name_months (foldl month_row [] data) of
                    Inl e \<Rightarrow> Inl e
                  | Inr named \<Rightarrow>
                      (let monthlyData = sort_key (\<lambda>e. month_number (mes e)) named;
                           n = length monthlyData;
                           a5 = (if n \<ge> 2
                                 then a4\<lparr>variacao_mensal :=
                                        Some (growth_of (monthlyData ! (n - 2))
                                                (monthlyData ! (n - 1)))\<rparr>
                                 else a4)
                       in Inr (a5\<lparr>evolucao_mensal := Some monthlyData\<rparr>)))
               else Inr a4))"

section \<open>The statements of the specification, and sample inputs\<close>

definition spec_keeps :: "QueryContext \<Rightarrow> row \<Rightarrow> bool" where
  \<comment> \<open>the filter as the specification words it: for each set of the context that is not
      empty, the field of the row is a member of the set\<close>
  "spec_keeps context r =
     ((years context \<noteq> [] \<longrightarrow> (\<exists>y\<in>set (years context). Ano r = Some y))
      \<and> (months context \<noteq> [] \<longrightarrow> (\<exists>m\<in>set (months context). Mes r = Some m))
      \<and> (produtos context \<noteq> [] \<longrightarrow> (\<exists>p\<in>set (produtos context). Produto r = Some p))
      \<and> (categorias context \<noteq> [] \<longrightarrow> (\<exists>c\<in>set (categorias context). Categoria r = Some c))
      \<and> (regioes context \<noteq> [] \<longrightarrow> (\<exists>g\<in>set (regioes context). Regiao r = Some g)))"

definition sample_rows :: "row list" where
  "sample_rows =
     [empty_row\<lparr>Ano := Some 2023, Mes := Some 3, Produto := Some ''Mouse''\<rparr>,
      empty_row\<lparr>Ano := Some 2022, Mes := Some 1, Produto := Some ''Teclado''\<rparr>,
      empty_row\<lparr>Produto := Some ''Mouse''\<rparr>,
      empty_row\<lparr>Ano := Some 2023, Mes := Some 3, Produto := Some ''Mouse''\<rparr>]"

definition sample_context :: QueryContext where
  "sample_context =
     \<lparr>years = [2023], months = [], produtos = [''Mouse''], categorias = [], regioes = [],
      metrics = [], comparison = False, topN = None\<rparr>"






definition group_rows :: "string \<Rightarrow> row list \<Rightarrow> string \<Rightarrow> row list" where
  \<comment> \<open>the rows of a group: those whose key is \<open>k\<close>\<close>
  "group_rows groupBy data k = filter (\<lambda>r. group_key groupBy r = k) data"

definition group_revenue :: "string \<Rightarrow> row list \<Rightarrow> string \<Rightarrow> rat" where
  \<comment> \<open>the summed revenue of a group\<close>
  "group_revenue groupBy data k = sum_list (map row_receita (group_rows groupBy data k))"

definition group_total :: "string \<Rightarrow> row list \<Rightarrow> string \<Rightarrow> group_stats" where
  "group_total groupBy data k =
     \<lparr>receita = group_revenue groupBy data k,
      quantidade = sum_list (map row_quantidade (group_rows groupBy data k)),
      count = length (group_rows groupBy data k)\<rparr>"





definition month_rows :: "row list \<Rightarrow> nat option \<Rightarrow> row list" where
  "month_rows data k = filter (\<lambda>r. Mes r = k) data"

definition month_revenue :: "row list \<Rightarrow> nat \<Rightarrow> rat" where
  \<comment> \<open>the total revenue of the rows of a month\<close>
  "month_revenue data m = sum_list (map row_receita (month_rows data (Some m)))"

definition month_total :: "row list \<Rightarrow> nat option \<Rightarrow> stats" where
  "month_total data k =
     \<lparr>receita = sum_list (map row_receita (month_rows data k)),
      quantidade = sum_list (map row_quantidade (month_rows data k))\<rparr>"

definition month_entry_of :: "row list \<Rightarrow> nat \<Rightarrow> month_entry" where
  \<comment> \<open>the bucket of a month: its totals under its name\<close>
  "month_entry_of data m =
     \<lparr>receita = month_revenue data m,
      quantidade = sum_list (map row_quantidade (month_rows data (Some m))),
      mes = month_label m\<rparr>"

definition dated_months :: "row list \<Rightarrow> nat list" where
  \<comment> \<open>the months of the data in the order of their first occurrence\<close>
  "dated_months data =
     concat (map (\<lambda>v. case v of None \<Rightarrow> [] | Some n \<Rightarrow> [n]) (distinct_values (map Mes data)))"

definition open_query :: string where
  "open_query = ''qual o total geral''"


definition comparison_context :: QueryContext where
  "comparison_context =
     \<lparr>years = [], months = [], produtos = [], categorias = [], regioes = [],
      metrics = [], comparison = True, topN = None\<rparr>"

definition zero_month_rows :: "row list" where
  "zero_month_rows =
     [empty_row\<lparr>Ano := Some 2024, Mes := Some 1, Produto := Some ''Mouse'', Receita_Total := Some 0\<rparr>,
      empty_row\<lparr>Ano := Some 2024, Mes := Some 2, Produto := Some ''Mouse'', Receita_Total := Some 100\<rparr>]"

definition undated_rows :: "row list" where
  "undated_rows =
     [empty_row\<lparr>Ano := Some 2024, Mes := Some 1, Produto := Some ''Mouse'', Receita_Total := Some 100\<rparr>,
      empty_row\<lparr>Produto := Some ''Mouse'', Receita_Total := Some 50\<rparr>]"

section \<open>Properties of the header normalizer\<close>








section \<open>Properties of the data filter\<close>

lemma js_includes_iff: "js_includes xs v = (\<exists>x\<in>set xs. v = Some x)"
  by (cases v) (auto simp: js_includes_def)

lemma row_passes_spec: "row_passes context r = spec_keeps context r"
  by (simp add: row_passes_def spec_keeps_def js_includes_iff)

text \<open>
  C2. The filter keeps exactly the rows the specification describes: the rows at the
  positions of the input where every set of the context that is not empty holds the
  field of the row, in the order of the input, each position once.
\<close>

theorem filterData_exact:
  "filterData data context = filter (spec_keeps context) data
   \<and> filterData data context
       = nths data {i. i < length data \<and> spec_keeps context (data ! i)}
   \<and> subseq (filterData data context) data"
proof -
  have eq: "filterData data context = filter (spec_keeps context) data"
    by (simp add: filterData_def row_passes_spec cong: filter_cong)
  have pos: "filter (spec_keeps context) data
        = nths data {i. i < length data \<and> spec_keeps context (data ! i)}"
    by (rule filter_eq_nths)
  have sub: "subseq (filter (spec_keeps context) data) data"
    by (rule subseq_filter_left)
  from eq pos sub show ?thesis by metis
qed

theorem filterData_exact_witness:
  "filterData sample_rows sample_context = [sample_rows ! 0, sample_rows ! 3]"
proof -
  have "filter (spec_keeps sample_context) sample_rows = [sample_rows ! 0, sample_rows ! 3]"
    by (simp add: spec_keeps_def sample_context_def sample_rows_def empty_row_def)
  with filterData_exact [of sample_rows sample_context] show ?thesis by simp
qed






section \<open>Properties of the numbers read from text\<close>

lemma lt10_cases:
  assumes "d < (10::nat)"
  obtains "d = 0" | "d = 1" | "d = 2" | "d = 3" | "d = 4" | "d = 5" | "d = 6" | "d = 7"
    | "d = 8" | "d = 9"
proof -
  from assms have "d = 0 \<or> d = 1 \<or> d = 2 \<or> d = 3 \<or> d = 4 \<or> d = 5 \<or> d = 6 \<or> d = 7
      \<or> d = 8 \<or> d = 9"
    by arith
  then show thesis using that by blast
qed

lemma digit_char_props:
  assumes "d < 10"
  shows "is_digit (''0123456789'' ! d)" and "digit_val (''0123456789'' ! d) = d"
  using assms by (cases d rule: lt10_cases; simp add: is_digit_def digit_val_def)+

lemma is_digit_cases:
  assumes "is_digit c"
  obtains d where "d < 10" "c = ''0123456789'' ! d"
proof -
  from assms have "c \<in> set ''0123456789''" by (simp add: is_digit_def)
  then obtain d where d: "d < length ''0123456789''" "''0123456789'' ! d = c"
    unfolding in_set_conv_nth by blast
  from d(1) have "d < 10" by simp
  with d(2) show ?thesis using that [of d] by blast
qed

lemma is_digit_not_space: "is_digit c \<Longrightarrow> \<not> is_space c"
  by (auto simp: is_digit_def is_space_def)

lemma is_digit_lower: "is_digit c \<Longrightarrow> lower_char c = c"
  by (auto simp: is_digit_def lower_char_def)

lemma is_digit_not_sep: "is_digit c \<Longrightarrow> c \<noteq> CHR ''/'' \<and> c \<noteq> CHR ''-'' \<and> c \<noteq> CHR ''+''
    \<and> c \<noteq> CHR ''x'' \<and> c \<noteq> CHR ''X''"
  by (auto simp: is_digit_def)

lemma show_nat_digits: "\<forall>c\<in>set (show_nat n). is_digit c"
proof (induction n rule: show_nat.induct)
  case (1 n)
  show ?case
  proof (cases "n < 10")
    case True
    then show ?thesis by (simp add: show_nat.simps [of n] digit_char_props)
  next
    case False
    with 1 show ?thesis by (simp add: show_nat.simps [of n] digit_char_props)
  qed
qed

lemma show_nat_nonempty: "show_nat n \<noteq> []"
  by (simp add: show_nat.simps [of n])

lemma digits_value_snoc: "digits_value R (ds @ [c]) = digits_value R ds * R + digit_val c"
  by (simp add: digits_value_def)

lemma digits_value_show_nat: "digits_value 10 (show_nat n) = n"
proof (induction n rule: show_nat.induct)
  case (1 n)
  show ?case
  proof (cases "n < 10")
    case True
    then show ?thesis by (simp add: show_nat.simps [of n] digits_value_def digit_char_props)
  next
    case False
    with 1 show ?thesis
      by (simp add: show_nat.simps [of n] digits_value_snoc digit_char_props)
  qed
qed

lemma length_show_nat: "n < 10 ^ k \<Longrightarrow> 0 < k \<Longrightarrow> length (show_nat n) \<le> k"
proof (induction k arbitrary: n)
  case 0
  then show ?case by simp
next
  case (Suc k)
  show ?case
  proof (cases "n < 10")
    case True
    then show ?thesis by (simp add: show_nat.simps [of n])
  next
    case False
    then have "k \<noteq> 0" using Suc.prems by (cases k) auto
    moreover from Suc.prems have "n div 10 < 10 ^ k"
      by (simp add: less_mult_imp_div_less mult.commute)
    ultimately have "length (show_nat (n div 10)) \<le> k" using Suc.IH by simp
    with False show ?thesis by (simp add: show_nat.simps [of n])
  qed
qed

lemma digits_value_zeros: "digits_value 10 (replicate k CHR ''0'' @ ds) = digits_value 10 ds"
proof -
  have "foldl (\<lambda>acc c. acc * 10 + digit_val c) 0 (replicate k CHR ''0'') = 0"
    by (induction k) (simp_all add: digit_val_def)
  then show ?thesis by (simp add: digits_value_def)
qed

lemma parseInt_digits:
  assumes "ds \<noteq> []" and "\<forall>c\<in>set ds. is_digit c"
  shows "parseInt ds = Some (int (digits_value 10 ds))"
proof -
  obtain c r where ds: "ds = c # r" using assms(1) by (cases ds) auto
  with assms(2) have c: "is_digit c" by simp
  have sp: "dropWhile is_space ds = ds" using ds c by (simp add: is_digit_not_space)
  have nohex: "\<not> prefix ''0x'' ds \<and> \<not> prefix ''0X'' ds"
  proof (cases r)
    case Nil
    with ds show ?thesis by simp
  next
    case (Cons c' r')
    with ds assms(2) have "is_digit c'" by simp
    with ds Cons show ?thesis using is_digit_not_sep by auto
  qed
  have tw: "takeWhile (is_radix_digit 10) ds = ds"
    using assms(2) by (simp add: is_radix_digit_def takeWhile_eq_all_conv)
  from c have nosign: "c \<noteq> CHR ''+'' \<and> c \<noteq> CHR ''-''" using is_digit_not_sep by blast
  have S1: "(case ds of c # r \<Rightarrow> if c = CHR ''+'' \<or> c = CHR ''-'' then r else ds | [] \<Rightarrow> ds) = ds"
    using ds nosign by simp
  have neg: "(case ds of c # _ \<Rightarrow> c = CHR ''-'' | [] \<Rightarrow> False) = False"
    using ds nosign by simp
  show ?thesis
    unfolding parseInt_def Let_def sp S1 neg
    by (simp add: nohex tw assms(1))
qed

lemma parseInt_group_digits:
  assumes "ds \<noteq> []" and "\<forall>c\<in>set ds. is_digit c"
  shows "parseInt_group ds = digits_value 10 ds"
  by (simp add: parseInt_group_def parseInt_digits [OF assms])

lemma parseInt_show_nat: "parseInt (show_nat n) = Some (int n)"
  by (simp add: parseInt_digits show_nat_nonempty show_nat_digits digits_value_show_nat)

section \<open>Properties of the row normalizer: dates\<close>

lemma trim_id:
  assumes "s \<noteq> []" and "\<not> is_space (hd s)" and "\<not> is_space (last s)"
  shows "trim s = s"
proof -
  from assms(1,2) have a: "dropWhile is_space s = s" by (cases s) auto
  have gen: "\<And>t. t \<noteq> [] \<Longrightarrow> \<not> is_space (hd t) \<Longrightarrow> dropWhile is_space t = t"
    subgoal for t by (cases t) auto
    done
  from assms(1) have "rev s \<noteq> []" "hd (rev s) = last s" by (simp_all add: hd_rev)
  with assms(3) have "dropWhile is_space (rev s) = rev s" by (intro gen) simp_all
  with a show ?thesis by (simp add: trim_def)
qed

lemma digit_run:
  assumes "\<forall>c\<in>set g. is_digit c" and "\<not> is_digit sep"
  shows "takeWhile is_digit (g @ sep # r) = g" and "dropWhile is_digit (g @ sep # r) = sep # r"
  using assms by (simp_all add: takeWhile_append2 dropWhile_append2)

lemma digit_run_end:
  assumes "\<forall>c\<in>set g. is_digit c"
  shows "takeWhile is_digit g = g" and "dropWhile is_digit g = []"
  using assms by (simp_all add: takeWhile_eq_all_conv)

lemma digit_group_sep:
  assumes "\<forall>c\<in>set g. is_digit c" and "\<not> is_digit sep"
  shows "digit_group lo hi (g @ sep # r)
       = (if lo \<le> length g \<and> length g \<le> hi then Some (g, sep # r) else None)"
  by (simp add: digit_group_def digit_run [OF assms])

lemma digit_group_end:
  assumes "\<forall>c\<in>set g. is_digit c"
  shows "digit_group lo hi g = (if lo \<le> length g \<and> length g \<le> hi then Some (g, []) else None)"
  by (simp add: digit_group_def digit_run_end [OF assms])

lemma match3_groups:
  assumes "\<forall>c\<in>set g1. is_digit c" "\<forall>c\<in>set g2. is_digit c" "\<forall>c\<in>set g3. is_digit c"
    and "\<not> is_digit sep"
  shows "match3 b1 b2 b3 sep (g1 @ sep # g2 @ sep # g3)
       = (if fst b1 \<le> length g1 \<and> length g1 \<le> snd b1 \<and> fst b2 \<le> length g2
             \<and> length g2 \<le> snd b2 \<and> fst b3 \<le> length g3 \<and> length g3 \<le> snd b3
          then Some (g1, g2, g3) else None)"
  by (simp add: match3_def digit_group_sep [OF assms(1,4)] digit_group_sep [OF assms(2,4)]
      digit_group_end [OF assms(3)])

lemma match3_other_sep:
  assumes "\<forall>c\<in>set g1. is_digit c" and "\<not> is_digit sep'" and "sep' \<noteq> sep"
  shows "match3 b1 b2 b3 sep (g1 @ sep' # r) = None"
  by (simp add: match3_def digit_group_sep [OF assms(1,2)] assms(3))

lemma parseDate_slash_groups:
  assumes g1: "g1 \<noteq> []" "length g1 \<le> 2" "\<forall>c\<in>set g1. is_digit c"
    and g2: "g2 \<noteq> []" "length g2 \<le> 2" "\<forall>c\<in>set g2. is_digit c"
    and g3: "length g3 = 4" "\<forall>c\<in>set g3. is_digit c"
  shows "parseDate (Some (g1 @ ''/'' @ g2 @ ''/'' @ g3)) =
     (let d1 = digits_value 10 g1; d2 = digits_value 10 g2; y = digits_value 10 g3;
          mo = (if 12 < d1 then d2 else d1); dy = (if 12 < d1 then d1 else d2)
      in Some \<lparr>date = show_nat y @ ''-'' @ padStart2 (show_nat mo) @ ''-'' @ padStart2 (show_nat dy),
               year = y, month = mo\<rparr>)"
proof -
  let ?s = "g1 @ ''/'' @ g2 @ ''/'' @ g3"
  have s: "?s = g1 @ CHR ''/'' # g2 @ CHR ''/'' # g3" by simp
  have ne: "?s \<noteq> []" using g1(1) by simp
  have g3ne: "g3 \<noteq> []" using g3(1) by auto
  have "hd ?s = hd g1" using g1(1) by simp
  moreover have "last ?s = last g3" using g3ne by simp
  ultimately have "\<not> is_space (hd ?s)" "\<not> is_space (last ?s)"
    using g1(1,3) g3(2) g3ne is_digit_not_space by (metis hd_in_set, metis last_in_set)
  with ne have tr: "trim ?s = ?s" by (rule trim_id)
  have slash: "\<not> is_digit CHR ''/''" by (simp add: is_digit_def)
  have iso: "match3 (4, 4) (1, 2) (1, 2) CHR ''-'' ?s = None"
    unfolding s by (rule match3_other_sep [OF g1(3) slash]) simp
  have l1: "1 \<le> length g1" "1 \<le> length g2"
    using g1(1) g2(1) by (simp_all add: Suc_leI)
  have dmy: "match3 (1, 2) (1, 2) (4, 4) CHR ''/'' ?s = Some (g1, g2, g3)"
    unfolding s using l1 by (simp add: match3_groups [OF g1(3) g2(3) g3(2) slash] g1(2) g2(2) g3(1))
  have vals: "parseInt_group g1 = digits_value 10 g1" "parseInt_group g2 = digits_value 10 g2"
    "parseInt_group g3 = digits_value 10 g3"
    using g1 g2 g3 g3ne by (simp_all add: parseInt_group_digits)
  show ?thesis
    unfolding parseDate_def using ne
    by (simp only: option.case tr iso dmy Let_def split: if_splits) (simp add: vals)
qed

lemma is_digit_zero: "is_digit CHR ''0''"
  by (simp add: is_digit_def)

lemma padStart2_digits:
  assumes "n < 100"
  shows "padStart2 (show_nat n) \<noteq> []" "length (padStart2 (show_nat n)) \<le> 2"
    "\<forall>c\<in>set (padStart2 (show_nat n)). is_digit c"
    "digits_value 10 (padStart2 (show_nat n)) = n"
proof -
  from assms have "n < 10 ^ 2" by simp
  then have len: "length (show_nat n) \<le> 2" by (rule length_show_nat) simp
  show "padStart2 (show_nat n) \<noteq> []" by (simp add: padStart2_def show_nat_nonempty)
  from len show "length (padStart2 (show_nat n)) \<le> 2" by (simp add: padStart2_def)
  show "\<forall>c\<in>set (padStart2 (show_nat n)). is_digit c"
    using show_nat_digits [of n] is_digit_zero by (auto simp: padStart2_def)
  show "digits_value 10 (padStart2 (show_nat n)) = n"
    by (simp add: padStart2_def digits_value_zeros digits_value_show_nat)
qed

lemma two_digit_form:
  assumes "n < 100" and "g = show_nat n \<or> g = padStart2 (show_nat n)"
  shows "g \<noteq> []" "length g \<le> 2" "\<forall>c\<in>set g. is_digit c" "digits_value 10 g = n"
proof -
  from assms(1) have "n < 10 ^ 2" by simp
  then have len: "length (show_nat n) \<le> 2" by (rule length_show_nat) simp
  from assms(2) show "g \<noteq> []"
    using show_nat_nonempty [of n] padStart2_digits(1) [OF assms(1)] by metis
  from assms(2) show "length g \<le> 2"
    using len padStart2_digits(2) [OF assms(1)] by auto
  from assms(2) show "\<forall>c\<in>set g. is_digit c"
    using show_nat_digits [of n] padStart2_digits(3) [OF assms(1)] by auto
  from assms(2) show "digits_value 10 g = n"
    using digits_value_show_nat padStart2_digits(4) [OF assms(1)] by auto
qed

lemma four_digit_form:
  assumes "y < 10000" and "g = replicate (4 - length (show_nat y)) CHR ''0'' @ show_nat y"
  shows "length g = 4" "\<forall>c\<in>set g. is_digit c" "digits_value 10 g = y"
proof -
  from assms(1) have "y < 10 ^ 4" by simp
  then have len: "length (show_nat y) \<le> 4" by (rule length_show_nat) simp
  with assms(2) show "length g = 4" by simp
  from assms(2) show "\<forall>c\<in>set g. is_digit c"
    using show_nat_digits [of y] is_digit_zero by auto
  from assms(2) show "digits_value 10 g = y"
    by (simp add: digits_value_zeros digits_value_show_nat)
qed

text \<open>
  C3 (as the code has it). A cell \<open>D/M/YYYY\<close> or \<open>DD/MM/YYYY\<close>, written with or without
  leading zeros, is read as follows: when the first group is greater than 12 it is the
  day and the second group is the month; otherwise the first group is the month and the
  second group is the day.
\<close>

theorem parseDate_slash_month_first:
  assumes "d1 < 100" and "d2 < 100" and "y < 10000"
    and "g1 = show_nat d1 \<or> g1 = padStart2 (show_nat d1)"
    and "g2 = show_nat d2 \<or> g2 = padStart2 (show_nat d2)"
    and "g3 = replicate (4 - length (show_nat y)) CHR ''0'' @ show_nat y"
  shows "parseDate (Some (g1 @ ''/'' @ g2 @ ''/'' @ g3)) =
     Some \<lparr>date = show_nat y @ ''-'' @ padStart2 (show_nat (if 12 < d1 then d2 else d1))
                   @ ''-'' @ padStart2 (show_nat (if 12 < d1 then d1 else d2)),
           year = y,
           month = (if 12 < d1 then d2 else d1)\<rparr>"
proof -
  note a = two_digit_form [OF assms(1,4)]
  note b = two_digit_form [OF assms(2,5)]
  note c = four_digit_form [OF assms(3,6)]
  show ?thesis
    using parseDate_slash_groups [OF a(1,2,3) b(1,2,3) c(1,2)]
    by (simp only: Let_def a(4) b(4) c(3))
qed

text \<open>
  C3 (as the specification has it) reads \<open>05/03/2024\<close> day first, as the fifth of March;
  the code reads the third of May.
\<close>

theorem parseDate_day_first_counterexample:
  "map_option month (parseDate (Some ''05/03/2024'')) = Some 5
   \<and> map_option month (parseDate (Some ''05/03/2024'')) \<noteq> Some 3"
proof -
  have a: "map_option month (parseDate (Some ''05/03/2024'')) = Some 5" by code_simp
  show ?thesis by (simp only: a) simp
qed

theorem parseDate_slash_month_first_witness:
  "parseDate (Some ''05/03/2024'') = Some \<lparr>date = ''2024-05-03'', year = 2024, month = 5\<rparr>
   \<and> parseDate (Some ''15/3/2024'') = Some \<lparr>date = ''2024-03-15'', year = 2024, month = 3\<rparr>"
proof -
  have s: "show_nat 5 = ''5''" "show_nat 3 = ''3''" "show_nat 15 = ''15''"
    "show_nat 2024 = ''2024''" "padStart2 ''5'' = ''05''" "padStart2 ''3'' = ''03''"
    "padStart2 ''15'' = ''15''"
    by code_simp+
  have "parseDate (Some (''05'' @ ''/'' @ ''03'' @ ''/'' @ ''2024'')) =
     Some \<lparr>date = show_nat 2024 @ ''-'' @ padStart2 (show_nat (if 12 < (5::nat) then 3 else 5))
                   @ ''-'' @ padStart2 (show_nat (if 12 < (5::nat) then 5 else 3)),
           year = 2024,
           month = (if 12 < (5::nat) then 3 else 5)\<rparr>"
    by (rule parseDate_slash_month_first) (simp_all add: s)
  moreover have "parseDate (Some (''15'' @ ''/'' @ ''3'' @ ''/'' @ ''2024'')) =
     Some \<lparr>date = show_nat 2024 @ ''-'' @ padStart2 (show_nat (if 12 < (15::nat) then 3 else 15))
                   @ ''-'' @ padStart2 (show_nat (if 12 < (15::nat) then 15 else 3)),
           year = 2024,
           month = (if 12 < (15::nat) then 3 else 15)\<rparr>"
    by (rule parseDate_slash_month_first) (simp_all add: s)
  ultimately show ?thesis by (simp add: s)
qed

section \<open>Properties of the row normalizer: quantities\<close>










section \<open>Properties of the aggregation engine: groups\<close>

lemma foldl_add_new_set: "set (foldl add_new acc xs) = set acc \<union> set xs"
  by (induction xs arbitrary: acc) (auto simp: add_new_def)


lemma distinct_values_set: "set (distinct_values xs) = set xs"
  by (simp add: distinct_values_def foldl_add_new_set)


lemma distinct_values_snoc: "distinct_values (xs @ [x]) = add_new (distinct_values xs) x"
  by (simp add: distinct_values_def)

lemma distinct_values_Nil: "distinct_values [] = []"
  by (simp add: distinct_values_def)

lemma map_entry_ensure_key:
  assumes "k \<notin> set ks \<Longrightarrow> T k = z"
  shows "map_entry k f (ensure_key k z (map (\<lambda>k'. (k', T k')) ks))
       = map (\<lambda>k'. (k', if k' = k then f (T k') else T k')) (add_new ks k)"
proof (cases "k \<in> set ks")
  case True
  then show ?thesis
    by (simp add: map_entry_def ensure_key_def add_new_def comp_def)
next
  case False
  with assms have "T k = z" by simp
  with False show ?thesis
    by (simp add: map_entry_def ensure_key_def add_new_def comp_def)
qed

lemma group_total_Nil: "group_total groupBy [] k = \<lparr>receita = 0, quantidade = 0, count = 0\<rparr>"
  by (simp add: group_total_def group_revenue_def group_rows_def)










lemma totals_fold:
  "foldl (\<lambda>a r. a\<lparr>receita_total := receita_total a + row_receita r,
                    quantidade_total := quantidade_total a + row_quantidade r\<rparr>)
     (a0 :: analysis) data
   = a0\<lparr>receita_total := receita_total a0 + sum_list (map row_receita data),
        quantidade_total := quantidade_total a0 + sum_list (map row_quantidade data)\<rparr>"
  by (induction data arbitrary: a0) (simp_all add: algebra_simps)





section \<open>Properties of the aggregation engine: months\<close>

lemma month_total_absent:
  assumes "k \<notin> set (map Mes data)"
  shows "month_total data k = \<lparr>receita = 0, quantidade = 0\<rparr>"
proof -
  from assms have "month_rows data k = []"
    by (auto simp: month_rows_def filter_empty_conv)
  then show ?thesis by (simp add: month_total_def)
qed

lemma month_total_snoc:
  "month_total (data @ [r]) k =
     (if k = Mes r
      then (month_total data k)
             \<lparr>receita := receita (month_total data k) + row_receita r,
              quantidade := quantidade (month_total data k) + row_quantidade r\<rparr>
      else month_total data k)"
  by (auto simp: month_total_def month_rows_def)

lemma months_closed_form:
  "foldl month_row [] data
     = map (\<lambda>k. (k, month_total data k)) (distinct_values (map Mes data))"
proof (induction data rule: rev_induct)
  case Nil
  then show ?case by (simp add: distinct_values_Nil)
next
  case (snoc r data)
  let ?ks = "distinct_values (map Mes data)"
  let ?f = "\<lambda>m. m\<lparr>receita := receita m + row_receita r,
                  quantidade := quantidade m + row_quantidade r\<rparr>"
  have absent: "Mes r \<notin> set ?ks \<Longrightarrow> month_total data (Mes r) = \<lparr>receita = 0, quantidade = 0\<rparr>"
    by (rule month_total_absent) (simp add: distinct_values_set)
  have "foldl month_row [] (data @ [r])
      = map_entry (Mes r) ?f (ensure_key (Mes r) \<lparr>receita = 0, quantidade = 0\<rparr>
          (map (\<lambda>k. (k, month_total data k)) ?ks))"
    by (simp add: snoc.IH month_row_def)
  also have "\<dots> = map (\<lambda>k'. (k', if k' = Mes r then ?f (month_total data k')
                                   else month_total data k')) (add_new ?ks (Mes r))"
    by (rule map_entry_ensure_key) (rule absent)
  also have "\<dots> = map (\<lambda>k. (k, month_total (data @ [r]) k)) (add_new ?ks (Mes r))"
    by (rule map_cong) (simp_all add: month_total_snoc)
  finally show ?case by (simp add: distinct_values_snoc)
qed

lemma name_months_undefined:
  assumes "None \<in> set ks"
  shows "name_months (map (\<lambda>k. (k, T k)) ks) = Inl TypeError"
  using assms
  by (induction ks) (auto split: option.splits sum.splits)

lemma name_months_defined:
  "name_months (map (\<lambda>m. (Some m, T (Some m))) ms)
     = Inr (map (\<lambda>m. \<lparr>receita = receita (T (Some m)), quantidade = quantidade (T (Some m)),
                       mes = month_label m\<rparr>) ms)"
  by (induction ms) simp_all

lemma name_months_total:
  "name_months (map (\<lambda>m. (Some m, month_total data (Some m))) ms)
     = Inr (map (month_entry_of data) ms)"
proof -
  have "(\<lambda>m. \<lparr>receita = receita (month_total data (Some m)),
             quantidade = quantidade (month_total data (Some m)),
             mes = month_label m\<rparr>) = month_entry_of data"
    by (rule ext) (simp add: month_entry_of_def month_total_def month_revenue_def)
  with name_months_defined [of "month_total data" ms] show ?thesis by simp
qed

lemma plain_sort_length: "length (plain_sort xs) = length xs"
proof -
  have "length (concat (map (\<lambda>v. case v of None \<Rightarrow> [] | Some n \<Rightarrow> [n]) xs))
        + length (filter (\<lambda>v. v = None) xs) = length xs"
    by (induction xs) (auto split: option.splits)
  then show ?thesis by (simp add: plain_sort_def)
qed

lemma month_label_unnamed:
  assumes "m = 0 \<or> 12 < m"
  shows "month_label m = show_nat m"
proof -
  from assms have "find (\<lambda>entry. snd entry = m) MONTHS_PT = None"
    by (auto simp: MONTHS_PT_def)
  then show ?thesis by (simp add: month_label_def)
qed

lemma toLowerCase_show_nat: "toLowerCase (show_nat m) = show_nat m"
  unfolding toLowerCase_def
  by (rule map_idI) (simp add: show_nat_digits is_digit_lower)

lemma months_keys_letters: "k \<in> fst ` set MONTHS_PT \<Longrightarrow> k \<noteq> [] \<and> \<not> is_digit (hd k)"
  by (auto simp: MONTHS_PT_def is_digit_def)

lemma month_number_unnamed:
  assumes "m = 0 \<or> 12 < m"
  shows "month_number (month_label m) = int m"
proof -
  have "is_digit (hd (show_nat m))"
    using show_nat_digits [of m] show_nat_nonempty [of m] by (meson hd_in_set)
  then have "show_nat m \<notin> fst ` set MONTHS_PT"
    using months_keys_letters by blast
  then have "map_of MONTHS_PT (show_nat m) = None"
    by (simp add: map_of_eq_None_iff)
  then show ?thesis
    by (simp add: month_label_unnamed [OF assms] month_number_def toLowerCase_show_nat
        parseInt_show_nat)
qed

lemma month_number_named:
  "month_number (month_label 1) = 1" "month_number (month_label 2) = 2"
  "month_number (month_label 3) = 3" "month_number (month_label 4) = 4"
  "month_number (month_label 5) = 5" "month_number (month_label 6) = 6"
  "month_number (month_label 7) = 7" "month_number (month_label 8) = 8"
  "month_number (month_label 9) = 9" "month_number (month_label 10) = 10"
  "month_number (month_label 11) = 11" "month_number (month_label 12) = 12"
  by code_simp+

lemma month_number_label: "month_number (month_label m) = int m"
proof (cases "m = 0 \<or> 12 < m")
  case True
  then show ?thesis by (rule month_number_unnamed)
next
  case False
  then have "m = 1 \<or> m = 2 \<or> m = 3 \<or> m = 4 \<or> m = 5 \<or> m = 6 \<or> m = 7 \<or> m = 8 \<or> m = 9
      \<or> m = 10 \<or> m = 11 \<or> m = 12"
    by arith
  then show ?thesis using month_number_named by (elim disjE) simp_all
qed

lemma somes_all:
  assumes "None \<notin> set ks"
  shows "map Some (concat (map (\<lambda>v. case v of None \<Rightarrow> [] | Some n \<Rightarrow> [n]) ks)) = ks"
  using assms
proof (induction ks)
  case Nil
  then show ?case by simp
next
  case (Cons a ks)
  then show ?case by (cases a) auto
qed

lemma dated_months_keys:
  assumes "None \<notin> set (map Mes data)"
  shows "distinct_values (map Mes data) = map Some (dated_months data)"
  unfolding dated_months_def
  by (rule somes_all [symmetric]) (use assms in \<open>simp add: distinct_values_set\<close>)



lemma insort_key_map:
  "insort_key f (g x) (map g xs) = map g (insort_key (\<lambda>y. f (g y)) x xs)"
  by (induction xs) simp_all

lemma sort_key_map: "sort_key f (map g xs) = map g (sort_key (\<lambda>y. f (g y)) xs)"
  by (induction xs) (simp_all add: insort_key_map)

lemma insort_key_int: "insort_key int x xs = insort x xs"
  by (induction xs) simp_all

lemma sort_key_int: "sort_key int xs = sort xs"
  by (induction xs) (simp_all add: insort_key_int)

lemma monthly_sorted:
  "sort_key (\<lambda>e. month_number (mes e)) (map (month_entry_of data) ms)
     = map (month_entry_of data) (sort ms)"
proof -
  have "(\<lambda>m. month_number (mes (month_entry_of data m))) = int"
    by (rule ext) (simp add: month_entry_of_def month_number_label)
  then show ?thesis by (simp add: sort_key_map sort_key_int)
qed

lemma analyzeData_raises:
  assumes "comparison context" and "1 < length (distinct_values (map Mes data))"
    and "None \<in> set (map Mes data)"
  shows "analyzeData data context = Inl TypeError"
proof -
  from assms(2) have ne: "data \<noteq> []" by (auto simp: distinct_values_Nil)
  have "None \<in> set (distinct_values (map Mes data))"
    using assms(3) by (simp add: distinct_values_set)
  then have "name_months (foldl month_row [] data) = Inl TypeError"
    unfolding months_closed_form by (rule name_months_undefined)
  with assms(1,2) ne show ?thesis
    by (simp add: analyzeData_def Let_def plain_sort_length)
qed

lemma analyzeData_comparison:
  assumes "data \<noteq> []" and "comparison context"
    and "1 < length (distinct_values (map Mes data))"
    and "name_months (foldl month_row [] data) = Inr named"
    and "S = sort_key (\<lambda>e. month_number (mes e)) named"
  shows "\<exists>a. analyzeData data context = Inr a
     \<and> evolucao_mensal a = Some S
     \<and> variacao_mensal a =
          (if 2 \<le> length S then Some (growth_of (S ! (length S - 2)) (S ! (length S - 1)))
           else None)"
  unfolding analyzeData_def Let_def
  using assms(1-4)
  by (simp add: assms(5) plain_sort_length totals_fold del: sort_key_simps)

lemma analyzeData_months:
  assumes "comparison context" and "1 < length (dated_months data)"
    and "None \<notin> set (map Mes data)"
  shows "\<exists>a. analyzeData data context = Inr a
     \<and> evolucao_mensal a = Some (map (month_entry_of data) (sort (dated_months data)))
     \<and> variacao_mensal a =
         Some (growth_of
           (month_entry_of data (sort (dated_months data) ! (length (dated_months data) - 2)))
           (month_entry_of data (sort (dated_months data) ! (length (dated_months data) - 1))))"
proof -
  let ?ms = "dated_months data"
  let ?S = "map (month_entry_of data) (sort ?ms)"
  have keys: "distinct_values (map Mes data) = map Some ?ms"
    by (rule dated_months_keys [OF assms(3)])
  from assms(2) have ne: "data \<noteq> []"
    by (auto simp: distinct_values_Nil dated_months_def)
  have named: "name_months (foldl month_row [] data) = Inr (map (month_entry_of data) ?ms)"
    unfolding months_closed_form keys by (simp add: comp_def name_months_total)
  have len: "1 < length (distinct_values (map Mes data))"
    using assms(2) by (simp add: keys)
  have S: "?S = sort_key (\<lambda>e. month_number (mes e)) (map (month_entry_of data) ?ms)"
    by (simp only: monthly_sorted)
  from analyzeData_comparison [OF ne assms(1) len named S]
  obtain a where a: "analyzeData data context = Inr a" "evolucao_mensal a = Some ?S"
    "variacao_mensal a =
       (if 2 \<le> length ?S then Some (growth_of (?S ! (length ?S - 2)) (?S ! (length ?S - 1)))
        else None)"
    by blast
  have l: "length ?S = length ?ms" by simp
  have n2: "2 \<le> length ?ms" using assms(2) by simp
  have i: "?S ! (length ?ms - 2) = month_entry_of data (sort ?ms ! (length ?ms - 2))"
    "?S ! (length ?ms - 1) = month_entry_of data (sort ?ms ! (length ?ms - 1))"
    using assms(2) by (simp_all del: sort_key_simps)
  from a(3) have "variacao_mensal a =
      Some (growth_of (month_entry_of data (sort ?ms ! (length ?ms - 2)))
             (month_entry_of data (sort ?ms ! (length ?ms - 1))))"
    unfolding l using n2 i by (simp only: if_True)
  with a(1,2) show ?thesis by blast
qed





section \<open>Properties of the aggregation engine: results and errors\<close>

lemma analyzeData_empty:
  "analyzeData [] context =
     Inr \<lparr>receita_total = 0, quantidade_total = 0, ticket_medio = 0, total_registros = 0,
          periodo_analizado = [], grupos = [],
          erro = Some ''Nenhum dado encontrado para os filtros especificados'',
          grupo_por = None, variacao_mensal = None, evolucao_mensal = None\<rparr>"
  by (simp add: analyzeData_def)

text \<open>
  C7. On the empty sequence the analysis returns the record of lemma \<open>analyzeData_empty\<close>:
  no records, totals 0, no groups, and the marker. It does not return on every input:
  with a comparison requested, more than one value of \<open>Mes\<close> in the data and a row whose
  \<open>Mes\<close> is unset, \<open>mes.toString()\<close> is called on \<open>undefined\<close> and throws (lemma
  \<open>analyzeData_raises_iff\<close> gives exactly these inputs). Here it does on two rows.
\<close>

theorem analyzeData_undated_month_raises:
  "analyzeData undated_rows comparison_context = Inl TypeError"
  by code_simp

text \<open>
  C5. The division by the revenue of the previous month has no guard: with total 0 in
  the first month and 100 in the second, \<open>crescimento_pct\<close> is the text \<open>Infinity\<close>.
\<close>

theorem analyzeData_zero_previous_month:
  "map_sum id (map_option crescimento_pct \<circ> variacao_mensal)
     (analyzeData zero_month_rows comparison_context) = Inr (Some (Some ''Infinity''))"
  by code_simp

lemma analyzeData_returns:
  assumes "\<not> comparison context \<or> length (distinct_values (map Mes data)) \<le> 1
      \<or> None \<notin> set (map Mes data)"
  shows "\<exists>a. analyzeData data context = Inr a"
proof (cases "comparison context \<and> 1 < length (distinct_values (map Mes data))")
  case True
  with assms have none: "None \<notin> set (map Mes data)" by auto
  from True have "1 < length (dated_months data)"
    by (simp add: dated_months_keys [OF none])
  from analyzeData_months [OF _ this none] True show ?thesis by blast
next
  case False
  then show ?thesis
    by (auto simp: analyzeData_def Let_def plain_sort_length)
qed

lemma analyzeData_raises_iff:
  "(\<exists>e. analyzeData data context = Inl e)
     \<longleftrightarrow> comparison context \<and> 1 < length (distinct_values (map Mes data))
         \<and> None \<in> set (map Mes data)"
proof
  assume "\<exists>e. analyzeData data context = Inl e"
  then show "comparison context \<and> 1 < length (distinct_values (map Mes data))
         \<and> None \<in> set (map Mes data)"
    using analyzeData_returns [of "context" data] by (metis Inl_Inr_False not_le_imp_less)
next
  assume "comparison context \<and> 1 < length (distinct_values (map Mes data))
         \<and> None \<in> set (map Mes data)"
  then show "\<exists>e. analyzeData data context = Inl e"
    using analyzeData_raises by blast
qed

section \<open>Properties of the query parser\<close>

lemma month_hits_none:
  assumes "\<forall>e\<in>set MONTHS_PT. \<not> str_includes lower (fst e)"
  shows "month_hits lower = []"
proof -
  have "\<And>acc tbl. \<forall>e\<in>set tbl. \<not> str_includes lower (fst e) \<Longrightarrow>
      foldl (\<lambda>ms entry. if str_includes lower (fst entry) then add_new ms (snd entry) else ms)
        acc tbl = acc"
    subgoal for acc tbl by (induction tbl arbitrary: acc) simp_all
    done
  with assms show ?thesis by (simp add: month_hits_def)
qed

lemma truthy_names_set: "set (truthy_names vs) = {s. Some s \<in> set vs \<and> s \<noteq> []}"
  by (induction vs) (auto simp: truthy_names_def split: option.splits)

lemma entity_hits_none:
  assumes "\<forall>r\<in>set allData. \<forall>s. field r = Some s \<and> s \<noteq> []
      \<longrightarrow> \<not> str_includes lower (toLowerCase s)"
  shows "entity_hits lower (distinct_values (truthy_names (map field allData))) = []"
  using assms
  by (auto simp: entity_hits_def filter_empty_conv distinct_values_set truthy_names_set)

lemma filterData_open:
  assumes "years c = []" "months c = []" "produtos c = []" "categorias c = []" "regioes c = []"
  shows "filterData data c = data"
  using assms by (simp add: filterData_def row_passes_def)

text \<open>
  C8. When the query has no match of the year pattern, holds no month name of the table,
  and holds the name of no product, category or region of the known rows, the parsed
  context has no years, months, products, categories or regions, and the filter with
  that context returns every input unchanged.
\<close>

theorem parseQuery_unrecognized_is_open:
  assumes "yearMatches query = []"
    and "\<forall>e\<in>set MONTHS_PT. \<not> str_includes (toLowerCase query) (fst e)"
    and "\<forall>r\<in>set allData. \<forall>s. (Produto r = Some s \<or> Categoria r = Some s \<or> Regiao r = Some s)
          \<and> s \<noteq> [] \<longrightarrow> \<not> str_includes (toLowerCase query) (toLowerCase s)"
  shows "years (parseQuery query allData) = [] \<and> months (parseQuery query allData) = []
       \<and> produtos (parseQuery query allData) = [] \<and> categorias (parseQuery query allData) = []
       \<and> regioes (parseQuery query allData) = []
       \<and> filterData data (parseQuery query allData) = data"
proof -
  let ?c = "parseQuery query allData"
  have y: "years ?c = []"
    using assms(1) by (simp add: parseQuery_def Let_def)
  have m: "months ?c = []"
    using month_hits_none [OF assms(2)] by (simp add: parseQuery_def Let_def)
  have p: "produtos ?c = []"
    using entity_hits_none [of allData Produto "toLowerCase query"] assms(3)
    by (simp add: parseQuery_def Let_def)
  have k: "categorias ?c = []"
    using entity_hits_none [of allData Categoria "toLowerCase query"] assms(3)
    by (simp add: parseQuery_def Let_def)
  have g: "regioes ?c = []"
    using entity_hits_none [of allData Regiao "toLowerCase query"] assms(3)
    by (simp add: parseQuery_def Let_def)
  from y m p k g filterData_open [OF y m p k g] show ?thesis by simp
qed

theorem parseQuery_unrecognized_is_open_witness:
  "years (parseQuery open_query sample_rows) = []
   \<and> filterData sample_rows (parseQuery open_query sample_rows) = sample_rows"
proof -
  have y: "yearMatches open_query = []" by code_simp
  have m: "\<forall>e\<in>set MONTHS_PT. \<not> str_includes (toLowerCase open_query) (fst e)"
    by code_simp
  have e: "\<forall>r\<in>set sample_rows. \<forall>s. (Produto r = Some s \<or> Categoria r = Some s \<or> Regiao r = Some s)
          \<and> s \<noteq> [] \<longrightarrow> \<not> str_includes (toLowerCase open_query) (toLowerCase s)"
  proof -
    have "\<not> str_includes (toLowerCase open_query) (toLowerCase ''Mouse'')"
      "\<not> str_includes (toLowerCase open_query) (toLowerCase ''Teclado'')"
      by code_simp+
    then show ?thesis by (auto simp: sample_rows_def empty_row_def)
  qed
  from parseQuery_unrecognized_is_open [OF y m e, of sample_rows] show ?thesis by simp
qed

end
